theory Spec2Isabelle
  imports Complex_Main "HOL-Library.Multiset"
begin

section \<open>Data model (player.ts, powerup.ts, main.ts)\<close>

text \<open>
  JavaScript numbers are modelled by type: identifiers, scores and the hole timer, which the
  code only ever increments, decrements and compares, are \<open>int\<close>; coordinates, angles,
  speeds and the millisecond clock are \<open>real\<close> (the IEEE rounding of the source is not
  modelled; no statement below depends on it). \<open>null\<close> in a path is \<open>None\<close>.
  The clock \<open>performance.now()\<close> and the draws of \<open>Math.random()\<close> are inputs of
  the functions that read them.
\<close>

datatype PowerupType =
    SPEED_BOOST
  | SLOW_OTHERS
  | THIN_TRAIL
  | INVINCIBLE
  | REVERSE_CONTROLS
  | GHOST_MODE
  | THICK_TRAIL
  | CLEAR_OWN_TRAIL
  | RANDOM_TELEPORT

type_synonym Point = "real \<times> real"

type_synonym PathEntry = "Point option"

type_synonym Effects = "PowerupType \<rightharpoonup> real"

record PlayerControls =
  left :: string
  right :: string

text \<open>The interface \<open>Player\<close>; the fields \<open>id\<close>, \<open>name\<close>, \<open>x\<close>, \<open>y\<close> are
  \<open>pid\<close>, \<open>pname\<close>, \<open>px\<close>, \<open>py\<close> here.\<close>

record Player =
  pid :: int
  pname :: string
  px :: real
  py :: real
  angle :: real
  speed :: real
  color :: string
  isTurningLeft :: bool
  isTurningRight :: bool
  turnSpeed :: real
  radius :: real
  path :: "PathEntry list"
  isAlive :: bool
  score :: int
  isMakingHole :: bool
  holeTimer :: int
  activeEffects :: Effects

text \<open>The interface \<open>Powerup\<close> (fields prefixed with \<open>pu_\<close>).\<close>

record Powerup =
  pu_id :: int
  pu_type :: PowerupType
  pu_x :: real
  pu_y :: real
  pu_radius :: real
  createdAt :: real

datatype GameState = WaitingToStart | Running | GameOver | SessionOver | Paused

datatype GameMode = Classic | Arcade

section \<open>JavaScript primitives used by the code\<close>

text \<open>A number is truthy unless it is zero (there is no NaN among the reals).\<close>

definition truthy :: "real \<Rightarrow> bool" where
  "truthy e = (e \<noteq> 0)"

text \<open>\<open>player.activeEffects.K\<close> read as a condition: the key is present and its expiry
  is truthy.\<close>

definition effectOn :: "Effects \<Rightarrow> PowerupType \<Rightarrow> bool" where
  "effectOn m k = (case m k of None \<Rightarrow> False | Some e \<Rightarrow> truthy e)"

text \<open>The remainder operator \<open>%\<close>: the quotient is truncated towards zero.\<close>

definition jsRem :: "real \<Rightarrow> real \<Rightarrow> real" where
  "jsRem a b = a - b * of_int (if 0 \<le> a / b then \<lfloor>a / b\<rfloor> else \<lceil>a / b\<rceil>)"

text \<open>\<open>keyStates[k] || false\<close>.\<close>

definition keyDown :: "(string \<rightharpoonup> bool) \<Rightarrow> string \<Rightarrow> bool" where
  "keyDown ks k = (case ks k of None \<Rightarrow> False | Some b \<Rightarrow> b)"

section \<open>player.ts\<close>

definition SPEED_BOOST_MULTIPLIER :: real where
  "SPEED_BOOST_MULTIPLIER = 15 / 10"

definition SLOW_OTHERS_MULTIPLIER :: real where
  "SLOW_OTHERS_MULTIPLIER = 7 / 10"

definition HOLE_CHANCE_PER_UPDATE :: real where
  "HOLE_CHANCE_PER_UPDATE = 7 / 1000"

definition HOLE_DURATION_FRAMES :: int where
  "HOLE_DURATION_FRAMES = 11"

definition createPlayer :: "int \<Rightarrow> string \<Rightarrow> real \<Rightarrow> real \<Rightarrow> real \<Rightarrow> string \<Rightarrow> int \<Rightarrow> Player" where
  "createPlayer i nm x0 y0 a c initialScore =
     \<lparr> pid = i, pname = nm, px = x0, py = y0, angle = a, speed = 2, color = c,
       isTurningLeft = False, isTurningRight = False, turnSpeed = pi / 60, radius = 5,
       path = [Some (x0, y0)], isAlive = True, score = initialScore,
       isMakingHole = False, holeTimer = 0, activeEffects = Map.empty \<rparr>"

text \<open>The blocks of \<open>updatePlayer\<close>, in the order of the source.\<close>

definition expireEffects :: "real \<Rightarrow> Effects \<Rightarrow> Effects" where
  "expireEffects now m =
     (\<lambda>k. case m k of
            None \<Rightarrow> None
          | Some e \<Rightarrow> if truthy e \<and> e \<le> now then None else Some e)"

definition holeTimerStep :: "Player \<Rightarrow> Player" where
  "holeTimerStep p =
     (if isMakingHole p
      then (let p1 = p\<lparr>holeTimer := holeTimer p - 1\<rparr>
            in if holeTimer p1 \<le> 0 then p1\<lparr>isMakingHole := False\<rparr> else p1)
      else p)"

definition startHole :: "real \<Rightarrow> Player \<Rightarrow> Player" where
  "startHole rnd p =
     (if \<not> isMakingHole p \<and> rnd < HOLE_CHANCE_PER_UPDATE
      then p\<lparr>isMakingHole := True, holeTimer := HOLE_DURATION_FRAMES\<rparr>
      else p)"

definition resolveTurning :: "(int \<rightharpoonup> PlayerControls) \<Rightarrow> (string \<rightharpoonup> bool) \<Rightarrow> Player \<Rightarrow> Player" where
  "resolveTurning playerControls keyStates p =
     (case playerControls (pid p) of
        None \<Rightarrow> p
      | Some controls \<Rightarrow>
          (let rev_on = effectOn (activeEffects p) REVERSE_CONTROLS;
               effectiveLeftKey = (if rev_on then right controls else left controls);
               effectiveRightKey = (if rev_on then left controls else right controls)
           in p\<lparr>isTurningLeft := keyDown keyStates effectiveLeftKey,
                 isTurningRight := keyDown keyStates effectiveRightKey\<rparr>))"

definition turn :: "Player \<Rightarrow> Player" where
  "turn p =
     (let a1 = (if isTurningLeft p then angle p - turnSpeed p else angle p);
          a2 = (if isTurningRight p then a1 + turnSpeed p else a1)
      in p\<lparr>angle := jsRem (a2 + pi * 2) (pi * 2)\<rparr>)"

definition currentSpeed :: "Player \<Rightarrow> real" where
  "currentSpeed p =
     (let s1 = (if effectOn (activeEffects p) SPEED_BOOST
                then speed p * SPEED_BOOST_MULTIPLIER else speed p)
      in if effectOn (activeEffects p) SLOW_OTHERS then s1 * SLOW_OTHERS_MULTIPLIER else s1)"

definition move :: "Player \<Rightarrow> Player" where
  "move p = p\<lparr>px := px p + cos (angle p) * currentSpeed p,
              py := py p + sin (angle p) * currentSpeed p\<rparr>"

definition appendPath :: "Player \<Rightarrow> Player" where
  "appendPath p =
     (if \<not> isMakingHole p
      then p\<lparr>path := path p @ [Some (px p, py p)]\<rparr>
      else if length (path p) = 0 \<or> last (path p) \<noteq> None
           then p\<lparr>path := path p @ [None]\<rparr>
           else p)"

definition updatePlayer ::
  "(int \<rightharpoonup> PlayerControls) \<Rightarrow> real \<Rightarrow> real \<Rightarrow> (string \<rightharpoonup> bool) \<Rightarrow> Player \<Rightarrow> Player" where
  "updatePlayer playerControls now rnd keyStates p =
     (if \<not> isAlive p then p
      else appendPath (move (turn (resolveTurning playerControls keyStates
             (startHole rnd (holeTimerStep (p\<lparr>activeEffects := expireEffects now (activeEffects p)\<rparr>)))))))"

text \<open>\<open>checkCollisions\<close>: the inner loop over one path (index \<open>i\<close> counts from the start
  of \<open>otherPlayer.path\<close>), the outer loop over the players, and the function itself.\<close>

definition skipSegments :: int where
  "skipSegments = 20"

fun pathLoop :: "Player \<Rightarrow> Player \<Rightarrow> nat \<Rightarrow> PathEntry list \<Rightarrow> bool" where
  "pathLoop player otherPlayer i [] = False"
| "pathLoop player otherPlayer i (e # es) =
     (if pid player = pid otherPlayer \<and> int (length (path otherPlayer)) - skipSegments \<le> int i
      then pathLoop player otherPlayer (Suc i) es
      else (case e of
              None \<Rightarrow> pathLoop player otherPlayer (Suc i) es
            | Some point \<Rightarrow>
                (let dx = px player - fst point;
                     dy = py player - snd point;
                     distanceSquared = dx * dx + dy * dy;
                     collisionThreshold =
                       (radius player + radius otherPlayer) * (radius player + radius otherPlayer)
                 in if distanceSquared < collisionThreshold then True
                    else pathLoop player otherPlayer (Suc i) es)))"

fun trailLoop :: "Player \<Rightarrow> Player list \<Rightarrow> bool" where
  "trailLoop player [] = False"
| "trailLoop player (otherPlayer # rest) =
     (if pathLoop player otherPlayer 0 (path otherPlayer) then True else trailLoop player rest)"

definition hitsBoundary :: "Player \<Rightarrow> real \<Rightarrow> real \<Rightarrow> bool" where
  "hitsBoundary player playableWidth canvasHeight =
     (px player - radius player < 0 \<or> px player + radius player > playableWidth \<or>
      py player - radius player < 0 \<or> py player + radius player > canvasHeight)"

definition checkCollisions :: "Player \<Rightarrow> real \<Rightarrow> real \<Rightarrow> Player list \<Rightarrow> bool" where
  "checkCollisions player playableWidth canvasHeight allPlayers =
     (if isMakingHole player \<or> effectOn (activeEffects player) INVINCIBLE then False
      else if effectOn (activeEffects player) GHOST_MODE then False
      else if hitsBoundary player playableWidth canvasHeight then True
      else trailLoop player allPlayers)"

section \<open>main.ts: module state and environment\<close>

datatype Direction = DirLeft | DirRight

text \<open>
  The module-level variables of main.ts, with \<open>playerControls\<close> of player.ts.
  \<open>lastScores\<close> and \<open>playerNames\<close> are objects keyed by player id: association lists
  in insertion order and a map.
\<close>

record Game =
  players :: "Player list"
  gameState :: GameState
  selectedGameMode :: "GameMode option"
  activePowerups :: "Powerup list"
  nextPowerupId :: int
  lastPowerupSpawnTime :: real
  eliminationOrder :: "int list"
  pauseStartTime :: "real option"
  waitingForKeyBinding :: "(int \<times> Direction) option"
  selectedPlayerCount :: nat
  lastScores :: "(int \<times> int) list"
  playerNames :: "int \<rightharpoonup> string"
  keyStates :: "string \<rightharpoonup> bool"
  playerControls :: "int \<rightharpoonup> PlayerControls"

text \<open>
  What one event handler or one frame reads from outside the program: the frame timestamp,
  the canvas size, every reading of \<open>performance.now()\<close> (one per call site; those inside
  the player loop are indexed by the player's position in the array and, for an effect
  application, by the powerup id), and every draw of \<open>Math.random()\<close>. The names that
  \<open>assignInitialPlayerNames\<close> would draw are given as the finished map.
\<close>

record Env =
  timestamp :: real
  canvasWidth :: real
  canvasHeight :: real
  clockLifetime :: real
  clockSpawn :: real
  clockUpdate :: "nat \<Rightarrow> real"
  clockApply :: "nat \<Rightarrow> int \<Rightarrow> real"
  clockKey :: real
  holeRoll :: "nat \<Rightarrow> real"
  spawnRoll :: "real \<times> real \<times> real"
  teleportRoll :: "nat \<Rightarrow> int \<Rightarrow> real \<times> real"
  startRoll :: "nat \<Rightarrow> real \<times> real \<times> real"
  drawnNames :: "int \<rightharpoonup> string"

definition MIN_TURN_RADIUS :: real where
  "MIN_TURN_RADIUS = 3 / (pi / 60)"

definition SAFE_ZONE_BUFFER :: real where
  "SAFE_ZONE_BUFFER = 2 * MIN_TURN_RADIUS"

definition POWERUP_SPAWN_INTERVAL :: real where
  "POWERUP_SPAWN_INTERVAL = 3000"

definition POWERUP_RADIUS :: real where
  "POWERUP_RADIUS = 10"

definition DEFAULT_RADIUS :: real where
  "DEFAULT_RADIUS = 10"

definition DEFAULT_LIFETIME_MS :: real where
  "DEFAULT_LIFETIME_MS = 10000"

text \<open>\<open>POWERUP_CONSTANTS[kind].DURATION_MS\<close>; the two instantaneous kinds have none and
  \<open>applyPowerupEffect\<close> leaves its local \<open>duration\<close> at 0 for them.\<close>

fun DURATION_MS :: "PowerupType \<Rightarrow> real" where
  "DURATION_MS SPEED_BOOST = 5000"
| "DURATION_MS SLOW_OTHERS = 5000"
| "DURATION_MS THIN_TRAIL = 10000"
| "DURATION_MS INVINCIBLE = 3000"
| "DURATION_MS REVERSE_CONTROLS = 5000"
| "DURATION_MS GHOST_MODE = 4000"
| "DURATION_MS THICK_TRAIL = 8000"
| "DURATION_MS CLEAR_OWN_TRAIL = 0"
| "DURATION_MS RANDOM_TELEPORT = 0"

text \<open>\<open>canvasWidth - leaderboardWidth - (2 * padding)\<close>.\<close>

definition playableWidthOf :: "real \<Rightarrow> real" where
  "playableWidthOf w = w - 250 - 2 * 15"

text \<open>The safe spawn zone \<open>(minX, maxX, minY, maxY)\<close>, clamped as in \<open>initializeGame\<close>
  and in the teleport case.\<close>

definition safeZone :: "real \<Rightarrow> real \<Rightarrow> real \<times> real \<times> real \<times> real" where
  "safeZone playableWidth h =
     (let minX = SAFE_ZONE_BUFFER; maxX = playableWidth - SAFE_ZONE_BUFFER;
          minY = SAFE_ZONE_BUFFER; maxY = h - SAFE_ZONE_BUFFER
      in if maxX \<le> minX \<or> maxY \<le> minY
         then (min minX (playableWidth / 2), max maxX (playableWidth / 2),
               min minY (h / 2), max maxY (h / 2))
         else (minX, maxX, minY, maxY))"

section \<open>main.ts: applyPowerupEffect\<close>

definition setEffect :: "PowerupType \<Rightarrow> real \<Rightarrow> Player \<Rightarrow> Player" where
  "setEffect k expiry p = p\<lparr>activeEffects := (activeEffects p)(k \<mapsto> expiry)\<rparr>"

text \<open>\<open>player.path[player.path.length - 1] || { x: player.x, y: player.y }\<close>: the last
  entry when there is one and it is a point, else the current position.\<close>

definition lastOrPosition :: "Player \<Rightarrow> Point" where
  "lastOrPosition p =
     (if path p = [] then (px p, py p)
      else (case last (path p) of None \<Rightarrow> (px p, py p) | Some point \<Rightarrow> point))"

definition clearOwnTrail :: "Player \<Rightarrow> Player" where
  "clearOwnTrail p = p\<lparr>path := [Some (lastOrPosition p)]\<rparr>"

text \<open>The teleport case. Writing index \<open>length - 1\<close> of an empty array sets the property
  \<open>-1\<close> and leaves the array empty.\<close>

definition randomTeleport :: "real \<Rightarrow> real \<Rightarrow> real \<times> real \<Rightarrow> Player \<Rightarrow> Player" where
  "randomTeleport cw ch roll p =
     (case safeZone (playableWidthOf cw) ch of
        (minX, maxX, minY, maxY) \<Rightarrow>
          (let newX = fst roll * (maxX - minX) + minX;
               newY = snd roll * (maxY - minY) + minY
           in p\<lparr>px := newX, py := newY,
                 path := (if path p = [] then path p
                          else (path p)[length (path p) - 1 := Some (newX, newY)])\<rparr>))"

text \<open>\<open>applyPowerupEffect(player, powerup, allPlayers)\<close>, where \<open>player\<close> is the element
  at index \<open>i\<close> of \<open>allPlayers\<close> (the objects are shared, so the result is the updated
  array).\<close>

definition applyPowerupEffect ::
  "real \<Rightarrow> real \<Rightarrow> real \<Rightarrow> real \<times> real \<Rightarrow> nat \<Rightarrow> Powerup \<Rightarrow> Player list \<Rightarrow> Player list" where
  "applyPowerupEffect now cw ch roll i powerup allPlayers =
     (let player = allPlayers ! i; effectType = pu_type powerup in
      case effectType of
        SPEED_BOOST \<Rightarrow> allPlayers[i := setEffect effectType (now + DURATION_MS SPEED_BOOST) player]
      | INVINCIBLE \<Rightarrow> allPlayers[i := setEffect effectType (now + DURATION_MS INVINCIBLE) player]
      | THIN_TRAIL \<Rightarrow> allPlayers[i := setEffect effectType (now + DURATION_MS THIN_TRAIL) player]
      | REVERSE_CONTROLS \<Rightarrow>
          allPlayers[i := setEffect effectType (now + DURATION_MS REVERSE_CONTROLS) player]
      | SLOW_OTHERS \<Rightarrow>
          map (\<lambda>otherPlayer.
                 if pid otherPlayer \<noteq> pid player \<and> isAlive otherPlayer
                 then setEffect effectType (now + DURATION_MS SLOW_OTHERS) otherPlayer
                 else otherPlayer) allPlayers
      | GHOST_MODE \<Rightarrow> allPlayers[i := setEffect effectType (now + DURATION_MS GHOST_MODE) player]
      | THICK_TRAIL \<Rightarrow> allPlayers[i := setEffect effectType (now + DURATION_MS THICK_TRAIL) player]
      | CLEAR_OWN_TRAIL \<Rightarrow> allPlayers[i := clearOwnTrail player]
      | RANDOM_TELEPORT \<Rightarrow> allPlayers[i := randomTeleport cw ch roll player])"

section \<open>main.ts: the player loop of gameLoop\<close>

text \<open>
  The variables of the loop \<open>for (const player of currentPlayers)\<close>: the array (objects
  mutated in place), the set \<open>collectedPowerupIds\<close>, the global \<open>eliminationOrder\<close>, the
  counter \<open>livingPlayersCount\<close>, and the trace of the messages
  \<open>Player p collected powerup k\<close>, one pair (player id, powerup id) per call of
  \<open>applyPowerupEffect\<close>.
\<close>

record LoopState =
  loopPlayers :: "Player list"
  collectedPowerupIds :: "int set"
  loopElimination :: "int list"
  livingPlayersCount :: nat
  collectedLog :: "(int \<times> int) list"

definition touchesPowerup :: "Player \<Rightarrow> Powerup \<Rightarrow> bool" where
  "touchesPowerup player powerup =
     (let dx = px player - pu_x powerup;
          dy = py player - pu_y powerup;
          distanceSquared = dx * dx + dy * dy;
          collisionThreshold =
            (radius player + pu_radius powerup) * (radius player + pu_radius powerup)
      in distanceSquared < collisionThreshold)"

fun powerupLoop :: "Env \<Rightarrow> nat \<Rightarrow> Powerup list \<Rightarrow> LoopState \<Rightarrow> LoopState" where
  "powerupLoop env i [] st = st"
| "powerupLoop env i (powerup # rest) st =
     (if pu_id powerup \<in> collectedPowerupIds st then powerupLoop env i rest st
      else if touchesPowerup (loopPlayers st ! i) powerup
      then powerupLoop env i rest
             (st\<lparr>collectedPowerupIds := insert (pu_id powerup) (collectedPowerupIds st),
                 collectedLog := collectedLog st @ [(pid (loopPlayers st ! i), pu_id powerup)],
                 loopPlayers :=
                   applyPowerupEffect (clockApply env i (pu_id powerup)) (canvasWidth env)
                     (canvasHeight env) (teleportRoll env i (pu_id powerup)) i powerup
                     (loopPlayers st)\<rparr>)
      else powerupLoop env i rest st)"

definition playerStep :: "Env \<Rightarrow> Game \<Rightarrow> LoopState \<Rightarrow> nat \<Rightarrow> LoopState" where
  "playerStep env g st i =
     (let player = updatePlayer (playerControls g) (clockUpdate env i) (holeRoll env i)
                     (keyStates g) (loopPlayers st ! i);
          st1 = st\<lparr>loopPlayers := (loopPlayers st)[i := player]\<rparr>;
          st2 =
            (if isAlive player
             then (if checkCollisions player (playableWidthOf (canvasWidth env)) (canvasHeight env)
                        (loopPlayers st1)
                   then st1\<lparr>loopPlayers := (loopPlayers st1)[i := player\<lparr>isAlive := False\<rparr>],
                            loopElimination := loopElimination st1 @ [pid player]\<rparr>
                   else if selectedGameMode g = Some Arcade
                        then powerupLoop env i (activePowerups g) st1
                        else st1)
             else st1)
      in if isAlive (loopPlayers st2 ! i)
         then st2\<lparr>livingPlayersCount := livingPlayersCount st2 + 1\<rparr>
         else st2)"

definition playersLoop :: "Env \<Rightarrow> Game \<Rightarrow> LoopState" where
  "playersLoop env g =
     foldl (playerStep env g)
       \<lparr>loopPlayers = players g, collectedPowerupIds = {},
        loopElimination = eliminationOrder g, livingPlayersCount = 0, collectedLog = []\<rparr>
       [0..<length (players g)]"

section \<open>main.ts: round end\<close>

definition finalRanking :: "Player list \<Rightarrow> int list \<Rightarrow> int list" where
  "finalRanking currentPlayers elimination =
     (let livingPlayerIds = map pid (filter isAlive currentPlayers)
      in livingPlayerIds @ rev elimination)"

definition pointsAwarded :: "int list" where
  "pointsAwarded = [3, 2, 1, 0]"

text \<open>\<open>pointsAwarded[index] ?? 0\<close>.\<close>

definition pointsFor :: "nat \<Rightarrow> int" where
  "pointsFor index = (if index < length pointsAwarded then pointsAwarded ! index else 0)"

text \<open>\<open>currentPlayers.find(p => p.id === playerId)\<close>, as the index of the object found.\<close>

fun findPlayer :: "int \<Rightarrow> Player list \<Rightarrow> nat option" where
  "findPlayer playerId [] = None"
| "findPlayer playerId (p # ps) =
     (if pid p = playerId then Some 0 else map_option Suc (findPlayer playerId ps))"

text \<open>\<open>finalRanking.forEach((playerId, index) => ...)\<close>, from position \<open>index\<close> on.\<close>

fun awardPoints :: "nat \<Rightarrow> int list \<Rightarrow> Player list \<Rightarrow> Player list" where
  "awardPoints index [] currentPlayers = currentPlayers"
| "awardPoints index (playerId # rest) currentPlayers =
     awardPoints (Suc index) rest
       (case findPlayer playerId currentPlayers of
          None \<Rightarrow> currentPlayers
        | Some j \<Rightarrow>
            currentPlayers[j := (currentPlayers ! j)
              \<lparr>score := score (currentPlayers ! j) + pointsFor index\<rparr>])"

text \<open>\<open>obj[k] = v\<close> on an object kept as an association list.\<close>

definition objSet :: "int \<Rightarrow> int \<Rightarrow> (int \<times> int) list \<Rightarrow> (int \<times> int) list" where
  "objSet k v obj =
     (if k \<in> fst ` set obj then map (\<lambda>(k', v'). if k' = k then (k', v) else (k', v')) obj
      else obj @ [(k, v)])"

text \<open>\<open>Object.values\<close> lists integer keys in ascending order (player ids are positive
  integers).\<close>

definition objectValues :: "(int \<times> int) list \<Rightarrow> int list" where
  "objectValues obj = map snd (sort_key fst obj)"

definition storeScores :: "Player list \<Rightarrow> (int \<times> int) list" where
  "storeScores currentPlayers = foldl (\<lambda>obj p. objSet (pid p) (score p) obj) [] currentPlayers"

text \<open>\<open>.sort((a, b) => b - a)\<close>.\<close>

definition sortDescending :: "int list \<Rightarrow> int list" where
  "sortDescending xs = rev (sort xs)"

definition WIN_SCORE :: int where
  "WIN_SCORE = 30"

definition WIN_DIFFERENCE :: int where
  "WIN_DIFFERENCE = 2"

text \<open>The condition of the session-win \<open>if\<close>, on the sorted array \<open>scores\<close>.\<close>

definition sessionWon :: "int list \<Rightarrow> bool" where
  "sessionWon scores =
     (let highestScore = (case scores of [] \<Rightarrow> 0 | h # _ \<Rightarrow> h);
          secondHighestScore = (case scores of _ # s # _ \<Rightarrow> s | _ \<Rightarrow> 0)
      in WIN_SCORE \<le> highestScore \<and>
         (length scores < 2 \<or> secondHighestScore + WIN_DIFFERENCE \<le> highestScore))"

text \<open>The body of \<open>if (livingPlayersCount <= 1 && currentPlayers.length > 1)\<close>.\<close>

definition roundEnd :: "Game \<Rightarrow> Game" where
  "roundEnd g =
     (let ranking = finalRanking (players g) (eliminationOrder g);
          scored = awardPoints 0 ranking (players g);
          stored = storeScores scored;
          scores = sortDescending (objectValues stored)
      in g\<lparr>players := scored, lastScores := stored,
            gameState := (if sessionWon scores then SessionOver else GameOver)\<rparr>)"

section \<open>main.ts: spawning, the frame, and the event handlers\<close>

definition powerupTypes :: "PowerupType list" where
  "powerupTypes = [SPEED_BOOST, SLOW_OTHERS, THIN_TRAIL, INVINCIBLE, REVERSE_CONTROLS,
                   GHOST_MODE, THICK_TRAIL, CLEAR_OWN_TRAIL, RANDOM_TELEPORT]"

text \<open>\<open>spawnPowerup\<close>. A draw of \<open>Math.random()\<close> lies in \<open>[0, 1)\<close>, so the index is
  always in range; for a third draw outside that interval (where the source would store a
  powerup without a type) the model only advances the id counter.\<close>

definition spawnPowerup :: "Env \<Rightarrow> Game \<Rightarrow> Game" where
  "spawnPowerup env g =
     (case spawnRoll env of
        (r1, r2, r3) \<Rightarrow>
          (let playableWidth = playableWidthOf (canvasWidth env);
               margin = POWERUP_RADIUS * 2;
               spawnX = r1 * (playableWidth - margin * 2) + margin;
               spawnY = r2 * (canvasHeight env - margin * 2) + margin;
               randomIndex = \<lfloor>r3 * real (length powerupTypes)\<rfloor>
           in if 0 \<le> randomIndex \<and> randomIndex < int (length powerupTypes)
              then g\<lparr>activePowerups := activePowerups g @
                        [\<lparr>pu_id = nextPowerupId g, pu_type = powerupTypes ! nat randomIndex,
                          pu_x = spawnX, pu_y = spawnY, pu_radius = DEFAULT_RADIUS,
                          createdAt = clockSpawn env\<rparr>],
                      nextPowerupId := nextPowerupId g + 1\<rparr>
              else g\<lparr>nextPowerupId := nextPowerupId g + 1\<rparr>))"

text \<open>\<open>if (collectedPowerupIds.size > 0) activePowerups = activePowerups.filter(...)\<close>.\<close>

definition removeCollected :: "int set \<Rightarrow> Powerup list \<Rightarrow> Powerup list" where
  "removeCollected ids powerups =
     (if ids = {} then powerups else filter (\<lambda>powerup. pu_id powerup \<notin> ids) powerups)"

text \<open>The body of \<open>if (gameState === 'Running' && currentPlayers)\<close>; \<open>currentPlayers\<close>
  is the module's \<open>players\<close> array, which every call of \<open>gameLoop\<close> is handed.\<close>

definition updateFrame :: "Env \<Rightarrow> Game \<Rightarrow> Game" where
  "updateFrame env g =
     (let st = playersLoop env g;
          g1 = g\<lparr>players := loopPlayers st,
                 eliminationOrder := loopElimination st,
                 activePowerups := removeCollected (collectedPowerupIds st) (activePowerups g)\<rparr>
      in if livingPlayersCount st \<le> 1 \<and> 1 < length (players g1) then roundEnd g1 else g1)"

text \<open>The part of \<open>gameLoop\<close> before the update: the first-frame initialisation of the
  spawn timer, the lifetime filter and the spawn (both in Arcade mode only).\<close>

definition timersAndSpawn :: "Env \<Rightarrow> Game \<Rightarrow> Game" where
  "timersAndSpawn env g =
     (let g1 = (if lastPowerupSpawnTime g = 0 \<and> gameState g = Running
                then g\<lparr>lastPowerupSpawnTime := timestamp env\<rparr> else g);
          g2 = (if gameState g1 = Running \<and> selectedGameMode g1 = Some Arcade
                then g1\<lparr>activePowerups :=
                       filter (\<lambda>powerup. clockLifetime env - createdAt powerup < DEFAULT_LIFETIME_MS)
                         (activePowerups g1)\<rparr>
                else g1)
      in if gameState g2 = Running \<and> selectedGameMode g2 = Some Arcade \<and>
            POWERUP_SPAWN_INTERVAL < timestamp env - lastPowerupSpawnTime g2
         then (spawnPowerup env g2)\<lparr>lastPowerupSpawnTime := timestamp env\<rparr>
         else g2)"

definition gameLoop :: "Env \<Rightarrow> Game \<Rightarrow> Game" where
  "gameLoop env g =
     (if gameState g = Paused then g
      else (let g3 = timersAndSpawn env g
            in if gameState g3 = Running then updateFrame env g3 else g3))"

definition playerColors :: "string list" where
  "playerColors = [''red'', ''lime'', ''magenta'', ''cyan'']"

text \<open>Decimal digits of a number, for the default name \<open>Player n\<close>.\<close>

fun showNat :: "nat \<Rightarrow> string" where
  "showNat n =
     (if n < 10 then [char_of (48 + n)] else showNat (n div 10) @ [char_of (48 + n mod 10)])"

declare showNat.simps [simp del]

text \<open>\<open>playerNames[k] || `Player ${k}`\<close> and \<open>previousScores[k] || 0\<close>.\<close>

definition nameOrDefault :: "(int \<rightharpoonup> string) \<Rightarrow> nat \<Rightarrow> string" where
  "nameOrDefault names k =
     (case names (int k) of
        None \<Rightarrow> ''Player '' @ showNat k
      | Some n \<Rightarrow> if n = [] then ''Player '' @ showNat k else n)"

definition scoreOrZero :: "(int \<times> int) list \<Rightarrow> int \<Rightarrow> int" where
  "scoreOrZero obj k = (case map_of obj k of None \<Rightarrow> 0 | Some v \<Rightarrow> v)"

text \<open>\<open>initializeGame\<close>; its result is assigned to \<open>players\<close> by both callers.\<close>

definition initializeGame :: "Env \<Rightarrow> nat \<Rightarrow> (int \<times> int) list \<Rightarrow> Game \<Rightarrow> Game" where
  "initializeGame env playerCount previousScores g =
     (case safeZone (playableWidthOf (canvasWidth env)) (canvasHeight env) of
        (minX, maxX, minY, maxY) \<Rightarrow>
          (let newPlayers =
                 map (\<lambda>i. case startRoll env i of
                             (r1, r2, r3) \<Rightarrow>
                               createPlayer (int i + 1) (nameOrDefault (playerNames g) (i + 1))
                                 (r1 * (maxX - minX) + minX) (r2 * (maxY - minY) + minY)
                                 (r3 * 2 * pi) (playerColors ! (i mod length playerColors))
                                 (scoreOrZero previousScores (int i + 1)))
                   [0..<playerCount]
           in g\<lparr>activePowerups := [], lastPowerupSpawnTime := 0, nextPowerupId := 0,
                 eliminationOrder := [], gameState := Running, players := newPlayers\<rparr>))"

definition setPlayerControl ::
  "int \<Rightarrow> Direction \<Rightarrow> string \<Rightarrow> (int \<rightharpoonup> PlayerControls) \<Rightarrow> (int \<rightharpoonup> PlayerControls)" where
  "setPlayerControl playerId direction key pc =
     (case pc playerId of
        None \<Rightarrow> pc
      | Some c \<Rightarrow>
          pc(playerId \<mapsto> (case direction of DirLeft \<Rightarrow> c\<lparr>left := key\<rparr>
                                            | DirRight \<Rightarrow> c\<lparr>right := key\<rparr>)))"

text \<open>The timer adjustment on resume: the body of \<open>if (pauseStartTime !== null)\<close>.\<close>

definition shiftEffects :: "real \<Rightarrow> Effects \<Rightarrow> Effects" where
  "shiftEffects pausedDuration m =
     (\<lambda>k. case m k of
            None \<Rightarrow> None
          | Some expiryTime \<Rightarrow>
              if truthy expiryTime then Some (expiryTime + pausedDuration) else Some expiryTime)"

definition resumeTimers :: "real \<Rightarrow> Game \<Rightarrow> Game" where
  "resumeTimers pausedDuration g =
     g\<lparr>players :=
         map (\<lambda>player. player\<lparr>activeEffects := shiftEffects pausedDuration (activeEffects player)\<rparr>)
           (players g),
       activePowerups :=
         map (\<lambda>powerup. powerup\<lparr>createdAt := createdAt powerup + pausedDuration\<rparr>)
           (activePowerups g),
       lastPowerupSpawnTime := lastPowerupSpawnTime g + pausedDuration,
       pauseStartTime := None\<rparr>"

definition isSpace :: "string \<Rightarrow> bool" where
  "isSpace key = (key = '' '' \<or> key = ''spacebar'')"

definition bindable :: "string \<Rightarrow> bool" where
  "bindable key = (length key = 1 \<or> take 5 key = ''arrow'' \<or> take 6 key = ''numpad'')"

text \<open>\<open>handleKeyDown\<close>; \<open>key\<close> is \<open>event.key.toLowerCase()\<close>. Drawing and the saving of
  settings are left out.\<close>

definition handleKeyDown :: "Env \<Rightarrow> string \<Rightarrow> Game \<Rightarrow> Game" where
  "handleKeyDown env key g =
     (if waitingForKeyBinding g \<noteq> None \<and> gameState g = WaitingToStart
      then (if key = ''escape'' then g\<lparr>waitingForKeyBinding := None\<rparr>
            else if key = '' '' \<or> key = ''spacebar'' \<or> key = ''enter'' then g
            else if bindable key
            then (case waitingForKeyBinding g of
                    None \<Rightarrow> g
                  | Some (playerId, direction) \<Rightarrow>
                      g\<lparr>playerControls := setPlayerControl playerId direction key (playerControls g),
                        waitingForKeyBinding := None\<rparr>)
            else g)
      else if isSpace key \<and> gameState g = WaitingToStart \<and> selectedGameMode g \<noteq> None \<and>
              waitingForKeyBinding g = None
      then initializeGame env (selectedPlayerCount g) [] (g\<lparr>lastScores := []\<rparr>)
      else if isSpace key \<and> gameState g = Running
      then g\<lparr>gameState := Paused, pauseStartTime := Some (clockKey env)\<rparr>
      else if isSpace key \<and> gameState g = Paused
      then (case pauseStartTime g of
              None \<Rightarrow> g\<lparr>gameState := Running\<rparr>
            | Some started \<Rightarrow> resumeTimers (clockKey env - started) (g\<lparr>gameState := Running\<rparr>))
      else if key = ''enter'' \<and> gameState g = GameOver
      then initializeGame env (selectedPlayerCount g) (lastScores g) g
      else if key = ''enter'' \<and> gameState g = SessionOver
      then g\<lparr>gameState := WaitingToStart, lastScores := [], players := [],
             playerNames := drawnNames env\<rparr>
      else g\<lparr>keyStates := (keyStates g)(key \<mapsto> True)\<rparr>)"

definition handleKeyUp :: "string \<Rightarrow> Game \<Rightarrow> Game" where
  "handleKeyUp key g = g\<lparr>keyStates := (keyStates g)(key \<mapsto> False)\<rparr>"

text \<open>\<open>handleMouseClick\<close>, with the button under the pointer (if any) already found.\<close>

datatype Click =
    ModeButton GameMode
  | KeyBindButton int Direction
  | IncreaseButton
  | DecreaseButton
  | NoButton

definition handleMouseClick :: "Env \<Rightarrow> Click \<Rightarrow> Game \<Rightarrow> Game" where
  "handleMouseClick env click g =
     (if gameState g \<noteq> WaitingToStart then g
      else (case click of
              ModeButton m \<Rightarrow> g\<lparr>selectedGameMode := Some m\<rparr>
            | KeyBindButton playerId direction \<Rightarrow>
                g\<lparr>waitingForKeyBinding := Some (playerId, direction)\<rparr>
            | IncreaseButton \<Rightarrow>
                (if selectedPlayerCount g < 4
                 then g\<lparr>selectedPlayerCount := selectedPlayerCount g + 1,
                        playerNames := drawnNames env\<rparr>
                 else g)
            | DecreaseButton \<Rightarrow>
                (if 1 < selectedPlayerCount g
                 then g\<lparr>selectedPlayerCount := selectedPlayerCount g - 1,
                        playerNames := drawnNames env\<rparr>
                 else g)
            | NoButton \<Rightarrow> g))"

text \<open>The events the page delivers, and the states the program can reach from its start
  (state \<open>WaitingToStart\<close>, no players, a player count between 1 and 4 from the settings).\<close>

datatype Event = KeyDown string | KeyUp string | MouseClick Click | Frame

definition initialGame :: "nat \<Rightarrow> (int \<rightharpoonup> PlayerControls) \<Rightarrow> (int \<rightharpoonup> string) \<Rightarrow> Game" where
  "initialGame n controls names =
     \<lparr>players = [], gameState = WaitingToStart, selectedGameMode = None, activePowerups = [],
      nextPowerupId = 0, lastPowerupSpawnTime = 0, eliminationOrder = [],
      pauseStartTime = None, waitingForKeyBinding = None, selectedPlayerCount = n,
      lastScores = [], playerNames = names, keyStates = Map.empty, playerControls = controls\<rparr>"

fun handleEvent :: "Env \<Rightarrow> Event \<Rightarrow> Game \<Rightarrow> Game" where
  "handleEvent env (KeyDown key) g = handleKeyDown env key g"
| "handleEvent env (KeyUp key) g = handleKeyUp key g"
| "handleEvent env (MouseClick click) g = handleMouseClick env click g"
| "handleEvent env Frame g = gameLoop env g"

inductive reachable :: "Game \<Rightarrow> bool" where
  start: "1 \<le> n \<Longrightarrow> n \<le> 4 \<Longrightarrow> reachable (initialGame n controls names)"
| step: "reachable g \<Longrightarrow> reachable (handleEvent env ev g)"

section \<open>Notions used to state the properties\<close>

text \<open>A sequence of events, each with the environment it is handled in; and the key-down
  events of the space bar.\<close>

fun runEvents :: "(Env \<times> Event) list \<Rightarrow> Game \<Rightarrow> Game" where
  "runEvents [] g = g"
| "runEvents ((env, ev) # rest) g = runEvents rest (handleEvent env ev g)"

fun spaceDown :: "Event \<Rightarrow> bool" where
  "spaceDown (KeyDown key) = isSpace key"
| "spaceDown _ = False"


text \<open>A path has no two consecutive gap markers.\<close>

fun noConsecGaps :: "PathEntry list \<Rightarrow> bool" where
  "noConsecGaps [] = True"
| "noConsecGaps [e] = True"
| "noConsecGaps (a # b # es) = (\<not> (a = None \<and> b = None) \<and> noConsecGaps (b # es))"

text \<open>Consecutive calls of \<open>updatePlayer\<close> on one player, one per frame, each with its
  clock reading, random draw and key states; and the runs in which the player is making a
  hole at every call (the flag as the path block of that call reads it).\<close>

type_synonym StepInput = "real \<times> real \<times> (string \<rightharpoonup> bool)"

fun updateMany :: "(int \<rightharpoonup> PlayerControls) \<Rightarrow> StepInput list \<Rightarrow> Player \<Rightarrow> Player" where
  "updateMany pc [] p = p"
| "updateMany pc ((now, rnd, ks) # ins) p = updateMany pc ins (updatePlayer pc now rnd ks p)"

fun holeRun :: "(int \<rightharpoonup> PlayerControls) \<Rightarrow> StepInput list \<Rightarrow> Player \<Rightarrow> bool" where
  "holeRun pc [] p = True"
| "holeRun pc ((now, rnd, ks) # ins) p =
     (isMakingHole (updatePlayer pc now rnd ks p) \<and> holeRun pc ins (updatePlayer pc now rnd ks p))"

text \<open>The distance test of the trail check, and the indices of \<open>otherPlayer.path\<close> that
  the check does not skip.\<close>

definition headOverlaps :: "Player \<Rightarrow> Player \<Rightarrow> Point \<Rightarrow> bool" where
  "headOverlaps player otherPlayer point =
     ((px player - fst point) * (px player - fst point) +
      (py player - snd point) * (py player - snd point)
        < (radius player + radius otherPlayer) * (radius player + radius otherPlayer))"

definition testedIndex :: "Player \<Rightarrow> Player \<Rightarrow> nat \<Rightarrow> bool" where
  "testedIndex player otherPlayer j =
     (j < length (path otherPlayer) \<and>
      (if pid player = pid otherPlayer then int j < int (length (path otherPlayer)) - 20 else True))"

text \<open>The highest of a list of scores, and the second highest: the highest of what is left
  when one occurrence of the highest is taken out.\<close>

definition highestOf :: "int list \<Rightarrow> int" where
  "highestOf xs = Max (set xs)"

definition secondHighestOf :: "int list \<Rightarrow> int" where
  "secondHighestOf xs = Max (set (remove1 (Max (set xs)) xs))"

text \<open>A concrete player used to instantiate the statements below.\<close>

definition demoPlayer :: Player where
  "demoPlayer = createPlayer 1 ''Ace'' 200 200 0 ''red'' 0"

definition demoControls :: "int \<rightharpoonup> PlayerControls" where
  "demoControls = [1 \<mapsto> \<lparr>left = ''arrowleft'', right = ''arrowright''\<rparr>,
                   2 \<mapsto> \<lparr>left = ''a'', right = ''d''\<rparr>]"

definition holePlayer :: Player where
  "holePlayer = demoPlayer\<lparr>isMakingHole := True, holeTimer := 5\<rparr>"

definition holeInputs :: "StepInput list" where
  "holeInputs = [(1000, 1, Map.empty), (1016, 1, Map.empty), (1033, 1, Map.empty)]"

text \<open>A player standing on thirty recorded copies of its own position.\<close>

definition coiledPlayer :: Player where
  "coiledPlayer = demoPlayer\<lparr>path := replicate 30 (Some (200, 200))\<rparr>"

text \<open>An environment in which every clock reads \<open>t\<close>, and a running two-player game
  whose first player holds a speed boost that expires at 9000 ms.\<close>

definition envAt :: "real \<Rightarrow> Env" where
  "envAt t =
     \<lparr>timestamp = t, canvasWidth = 1080, canvasHeight = 600, clockLifetime = t, clockSpawn = t,
      clockUpdate = (\<lambda>_. t), clockApply = (\<lambda>_ _. t), clockKey = t, holeRoll = (\<lambda>_. 1 / 2),
      spawnRoll = (1 / 2, 1 / 2, 1 / 2), teleportRoll = (\<lambda>_ _. (1 / 2, 1 / 2)),
      startRoll = (\<lambda>_. (1 / 2, 1 / 2, 0)), drawnNames = Map.empty\<rparr>"

definition demoPowerup :: Powerup where
  "demoPowerup =
     \<lparr>pu_id = 0, pu_type = SPEED_BOOST, pu_x = 400, pu_y = 300, pu_radius = 10,
      createdAt = 3000\<rparr>"

definition boostedGame :: Game where
  "boostedGame =
     (initialGame 2 demoControls Map.empty)
       \<lparr>players := [demoPlayer\<lparr>activeEffects := [SPEED_BOOST \<mapsto> 9000]\<rparr>, demoPlayer\<lparr>pid := 2\<rparr>],
        gameState := Running, selectedGameMode := Some Arcade,
        activePowerups := [demoPowerup], nextPowerupId := 1, lastPowerupSpawnTime := 2500\<rparr>"

text \<open>Round-end situations: two players, the first alive with score \<open>a\<close> and the second
  eliminated with score \<open>b\<close>; and a single living player with score \<open>a\<close>.\<close>

definition duel :: "int \<Rightarrow> int \<Rightarrow> Game" where
  "duel a b =
     (initialGame 2 demoControls Map.empty)
       \<lparr>players := [demoPlayer\<lparr>score := a\<rparr>, demoPlayer\<lparr>pid := 2, isAlive := False, score := b\<rparr>],
        gameState := Running, selectedGameMode := Some Classic, eliminationOrder := [2]\<rparr>"

definition solo :: "int \<Rightarrow> Game" where
  "solo a =
     (initialGame 1 demoControls Map.empty)
       \<lparr>players := [demoPlayer\<lparr>score := a\<rparr>], gameState := Running,
        selectedGameMode := Some Classic\<rparr>"

section \<open>Properties of updatePlayer and checkCollisions\<close>

text \<open>
  C9. For a player whose \<open>isAlive\<close> flag is false, \<open>updatePlayer\<close> changes nothing:
  the returned player record is the one passed in (position, angle, path, hole state, effects
  and every other field), for every control map, clock value, random draw and key state.
\<close>

theorem updatePlayer_dead_noop:
  "\<not> isAlive p \<Longrightarrow> updatePlayer pc now rnd ks p = p"
  by (simp add: updatePlayer_def)

theorem updatePlayer_dead_noop_witness:
  "\<not> isAlive (demoPlayer\<lparr>isAlive := False\<rparr>) \<and>
   updatePlayer demoControls 1000 0 [''arrowleft'' \<mapsto> True] (demoPlayer\<lparr>isAlive := False\<rparr>)
     = demoPlayer\<lparr>isAlive := False\<rparr>"
  using updatePlayer_dead_noop [of "demoPlayer\<lparr>isAlive := False\<rparr>" demoControls 1000 0
      "[''arrowleft'' \<mapsto> True]"]
  by simp

text \<open>
  C3. \<open>checkCollisions\<close> returns false (neither a boundary nor a trail collision) whenever
  the queried player's \<open>isMakingHole\<close> flag is true, or its \<open>INVINCIBLE\<close> entry is set, or
  its \<open>GHOST_MODE\<close> entry is set, whatever the position, the playable area and the trails.
  An entry is set, as everywhere in the code, when the key is present with a non-zero expiry.
\<close>

theorem checkCollisions_immune:
  "isMakingHole p \<or> effectOn (activeEffects p) INVINCIBLE \<or> effectOn (activeEffects p) GHOST_MODE
     \<Longrightarrow> \<not> checkCollisions p w h allPlayers"
  by (auto simp: checkCollisions_def)

theorem checkCollisions_immune_witness:
  "isMakingHole (demoPlayer\<lparr>px := - 50, isMakingHole := True\<rparr>) \<and>
   \<not> checkCollisions (demoPlayer\<lparr>px := - 50, isMakingHole := True\<rparr>) 800 600
        [demoPlayer\<lparr>px := - 50, isMakingHole := True\<rparr>, demoPlayer\<lparr>pid := 2\<rparr>] \<and>
   effectOn (activeEffects (demoPlayer\<lparr>activeEffects := [GHOST_MODE \<mapsto> 4000]\<rparr>)) GHOST_MODE \<and>
   \<not> checkCollisions (demoPlayer\<lparr>activeEffects := [GHOST_MODE \<mapsto> 4000]\<rparr>) 100 100
        [demoPlayer\<lparr>pid := 2\<rparr>]"
  using checkCollisions_immune [of "demoPlayer\<lparr>px := - 50, isMakingHole := True\<rparr>" 800 600
      "[demoPlayer\<lparr>px := - 50, isMakingHole := True\<rparr>, demoPlayer\<lparr>pid := 2\<rparr>]"]
    checkCollisions_immune [of "demoPlayer\<lparr>activeEffects := [GHOST_MODE \<mapsto> 4000]\<rparr>" 100 100
      "[demoPlayer\<lparr>pid := 2\<rparr>]"]
  by (simp add: effectOn_def truthy_def)

section \<open>The path of a player under updatePlayer\<close>

lemma noConsecGaps_snoc_Some: "noConsecGaps es \<Longrightarrow> noConsecGaps (es @ [Some pt])"
  by (induction es rule: noConsecGaps.induct) auto

lemma noConsecGaps_snoc_None:
  "noConsecGaps es \<Longrightarrow> es = [] \<or> last es \<noteq> None \<Longrightarrow> noConsecGaps (es @ [None])"
  by (induction es rule: noConsecGaps.induct) (auto split: if_splits)

lemma path_before_append:
  "path (move (turn (resolveTurning pc ks (startHole rnd (holeTimerStep (p\<lparr>activeEffects := m\<rparr>))))))
     = path p"
  by (simp add: move_def turn_def resolveTurning_def startHole_def holeTimerStep_def Let_def
      split: option.splits)

lemma hole_before_append:
  "isMakingHole (move (turn (resolveTurning pc ks q))) = isMakingHole q"
  by (simp add: move_def turn_def resolveTurning_def Let_def split: option.splits)

lemma isMakingHole_appendPath: "isMakingHole (appendPath q) = isMakingHole q"
  by (simp add: appendPath_def)

lemma path_appendPath:
  "path (appendPath q) =
     path q @ (if \<not> isMakingHole q then [Some (px q, py q)]
               else if path q = [] \<or> last (path q) \<noteq> None then [None] else [])"
  by (simp add: appendPath_def)

lemma isMakingHole_updatePlayer:
  "isMakingHole (updatePlayer pc now rnd ks p) =
     (if isAlive p then isMakingHole (startHole rnd (holeTimerStep p)) else isMakingHole p)"
  by (simp add: updatePlayer_def isMakingHole_appendPath hole_before_append startHole_def
      holeTimerStep_def Let_def)

lemma updatePlayer_path:
  "path (updatePlayer pc now rnd ks p) =
     path p @ (if \<not> isAlive p then []
               else if \<not> isMakingHole (updatePlayer pc now rnd ks p)
                    then [Some (px (updatePlayer pc now rnd ks p), py (updatePlayer pc now rnd ks p))]
               else if path p = [] \<or> last (path p) \<noteq> None then [None] else [])"
  by (simp add: updatePlayer_def path_appendPath isMakingHole_appendPath path_before_append
      appendPath_def)

lemma updatePlayer_noConsecGaps:
  "noConsecGaps (path p) \<Longrightarrow> noConsecGaps (path (updatePlayer pc now rnd ks p))"
  by (simp add: updatePlayer_path noConsecGaps_snoc_Some noConsecGaps_snoc_None)

lemma updateMany_dead: "\<not> isAlive p \<Longrightarrow> updateMany pc ins p = p"
  by (induction ins) (auto simp: updatePlayer_def)

lemma holeRun_after_gap:
  "holeRun pc ins p \<Longrightarrow> path p \<noteq> [] \<Longrightarrow> last (path p) = None \<Longrightarrow>
     path (updateMany pc ins p) = path p"
proof (induction ins arbitrary: p)
  case Nil
  then show ?case by simp
next
  case (Cons a ins)
  obtain now rnd ks where a: "a = (now, rnd, ks)" by (cases a) auto
  let ?q = "updatePlayer pc now rnd ks p"
  from Cons.prems a have h: "isMakingHole ?q" and r: "holeRun pc ins ?q" by auto
  from h Cons.prems have q: "path ?q = path p" by (simp add: updatePlayer_path)
  with Cons.IH [OF r] Cons.prems a show ?case by simp
qed

lemma holeRun_path:
  assumes run: "holeRun pc ins p"
  shows "path (updateMany pc ins p) =
           path p @ (if ins \<noteq> [] \<and> isAlive p \<and> (path p = [] \<or> last (path p) \<noteq> None)
                     then [None] else [])"
proof (cases ins)
  case Nil
  then show ?thesis by simp
next
  case (Cons a rest)
  obtain now rnd ks where a: "a = (now, rnd, ks)" by (cases a) auto
  let ?q = "updatePlayer pc now rnd ks p"
  from run Cons a have h: "isMakingHole ?q" and r: "holeRun pc rest ?q" by auto
  consider (dead) "\<not> isAlive p"
    | (gap) "isAlive p" "path p \<noteq> []" "last (path p) = None"
    | (fresh) "isAlive p" "path p = [] \<or> last (path p) \<noteq> None"
    by blast
  then show ?thesis
  proof cases
    case dead
    then show ?thesis by (simp add: updateMany_dead)
  next
    case gap
    with h have q: "path ?q = path p" by (simp add: updatePlayer_path)
    with gap have "path (updateMany pc rest ?q) = path ?q"
      using holeRun_after_gap [OF r] by simp
    with q gap Cons a show ?thesis by simp
  next
    case fresh
    with h have q: "path ?q = path p @ [None]" by (simp add: updatePlayer_path)
    then have "path (updateMany pc rest ?q) = path ?q"
      using holeRun_after_gap [OF r] by simp
    with q fresh Cons a show ?thesis by simp
  qed
qed

lemma appendPath_fields [simp]:
  "pid (appendPath p) = pid p" "isAlive (appendPath p) = isAlive p"
  "score (appendPath p) = score p" "radius (appendPath p) = radius p"
  "speed (appendPath p) = speed p" "pname (appendPath p) = pname p"
  "holeTimer (appendPath p) = holeTimer p" "px (appendPath p) = px p" "py (appendPath p) = py p"
  "angle (appendPath p) = angle p" "activeEffects (appendPath p) = activeEffects p"
  by (simp_all add: appendPath_def)

lemma move_fields [simp]:
  "pid (move p) = pid p" "isAlive (move p) = isAlive p"
  "score (move p) = score p" "radius (move p) = radius p"
  "speed (move p) = speed p" "pname (move p) = pname p"
  "holeTimer (move p) = holeTimer p" "isMakingHole (move p) = isMakingHole p"
  "path (move p) = path p" "angle (move p) = angle p" "activeEffects (move p) = activeEffects p"
  by (simp_all add: move_def)

lemma turn_fields [simp]:
  "pid (turn p) = pid p" "isAlive (turn p) = isAlive p"
  "score (turn p) = score p" "radius (turn p) = radius p"
  "speed (turn p) = speed p" "pname (turn p) = pname p"
  "holeTimer (turn p) = holeTimer p" "isMakingHole (turn p) = isMakingHole p"
  "path (turn p) = path p" "px (turn p) = px p" "py (turn p) = py p"
  "activeEffects (turn p) = activeEffects p"
  by (simp_all add: turn_def Let_def)

lemma resolveTurning_fields [simp]:
  "pid (resolveTurning pc ks p) = pid p" "isAlive (resolveTurning pc ks p) = isAlive p"
  "score (resolveTurning pc ks p) = score p" "radius (resolveTurning pc ks p) = radius p"
  "speed (resolveTurning pc ks p) = speed p" "pname (resolveTurning pc ks p) = pname p"
  "holeTimer (resolveTurning pc ks p) = holeTimer p"
  "isMakingHole (resolveTurning pc ks p) = isMakingHole p"
  "path (resolveTurning pc ks p) = path p" "px (resolveTurning pc ks p) = px p"
  "py (resolveTurning pc ks p) = py p" "angle (resolveTurning pc ks p) = angle p"
  "activeEffects (resolveTurning pc ks p) = activeEffects p"
  by (simp_all add: resolveTurning_def Let_def split: option.splits)

lemma startHole_fields [simp]:
  "pid (startHole rnd p) = pid p" "isAlive (startHole rnd p) = isAlive p"
  "score (startHole rnd p) = score p" "radius (startHole rnd p) = radius p"
  "speed (startHole rnd p) = speed p" "pname (startHole rnd p) = pname p"
  "path (startHole rnd p) = path p" "px (startHole rnd p) = px p" "py (startHole rnd p) = py p"
  "angle (startHole rnd p) = angle p" "activeEffects (startHole rnd p) = activeEffects p"
  "isTurningLeft (startHole rnd p) = isTurningLeft p"
  "isTurningRight (startHole rnd p) = isTurningRight p"
  "turnSpeed (startHole rnd p) = turnSpeed p"
  by (simp_all add: startHole_def)

lemma holeTimerStep_fields [simp]:
  "pid (holeTimerStep p) = pid p" "isAlive (holeTimerStep p) = isAlive p"
  "score (holeTimerStep p) = score p" "radius (holeTimerStep p) = radius p"
  "speed (holeTimerStep p) = speed p" "pname (holeTimerStep p) = pname p"
  "path (holeTimerStep p) = path p" "px (holeTimerStep p) = px p" "py (holeTimerStep p) = py p"
  "angle (holeTimerStep p) = angle p" "activeEffects (holeTimerStep p) = activeEffects p"
  "isTurningLeft (holeTimerStep p) = isTurningLeft p"
  "isTurningRight (holeTimerStep p) = isTurningRight p"
  "turnSpeed (holeTimerStep p) = turnSpeed p"
  by (simp_all add: holeTimerStep_def Let_def)

lemma updatePlayer_fields:
  "pid (updatePlayer pc now rnd ks p) = pid p"
  "isAlive (updatePlayer pc now rnd ks p) = isAlive p"
  "score (updatePlayer pc now rnd ks p) = score p"
  "radius (updatePlayer pc now rnd ks p) = radius p"
  "speed (updatePlayer pc now rnd ks p) = speed p"
  "pname (updatePlayer pc now rnd ks p) = pname p"
  by (simp_all add: updatePlayer_def)

lemma holeTimer_updatePlayer:
  "holeTimer (updatePlayer pc now rnd ks p) =
     (if isAlive p then holeTimer (startHole rnd (holeTimerStep p)) else holeTimer p)"
  by (simp add: updatePlayer_def startHole_def holeTimerStep_def Let_def)

lemma hole_continues:
  assumes "isAlive p" "isMakingHole p" "1 < holeTimer p"
  shows "isMakingHole (updatePlayer pc now rnd ks p) \<and>
         holeTimer (updatePlayer pc now rnd ks p) = holeTimer p - 1"
  using assms
  by (simp add: isMakingHole_updatePlayer holeTimer_updatePlayer startHole_def holeTimerStep_def
      Let_def)

lemma holeRun_timer:
  "isAlive p \<Longrightarrow> isMakingHole p \<Longrightarrow> int (length ins) < holeTimer p \<Longrightarrow> holeRun pc ins p"
proof (induction ins arbitrary: p)
  case Nil
  then show ?case by simp
next
  case (Cons a ins)
  obtain now rnd ks where a: "a = (now, rnd, ks)" by (cases a) auto
  let ?q = "updatePlayer pc now rnd ks p"
  from Cons.prems have "1 < holeTimer p" by simp
  with Cons.prems have q: "isMakingHole ?q" "holeTimer ?q = holeTimer p - 1"
    using hole_continues [of p pc now rnd ks] by simp_all
  moreover have "isAlive ?q" using Cons.prems by (simp add: updatePlayer_fields)
  moreover have "int (length ins) < holeTimer ?q" using q Cons.prems by simp
  ultimately have "holeRun pc ins ?q" by (rule_tac Cons.IH)
  with q a show ?case by simp
qed

text \<open>
  C6. One \<open>updatePlayer\<close> step keeps a path free of consecutive gap markers. While the
  player is making a hole, the step appends a gap marker only if the path is empty or its
  last entry is not a gap marker, and appends nothing otherwise; so a run of consecutive
  hole steps, however long, adds at most one gap marker to the path: exactly one if the run
  is not empty, the player is alive and the path did not already end in a gap marker, and
  none otherwise.
\<close>

theorem updatePlayer_gap_collapsing:
  "(noConsecGaps (path p) \<longrightarrow> noConsecGaps (path (updatePlayer pc now rnd ks p))) \<and>
   (isAlive p \<and> isMakingHole (updatePlayer pc now rnd ks p) \<longrightarrow>
      path (updatePlayer pc now rnd ks p) =
        path p @ (if path p = [] \<or> last (path p) \<noteq> None then [None] else [])) \<and>
   (holeRun pc ins p \<longrightarrow>
      path (updateMany pc ins p) =
        path p @ (if ins \<noteq> [] \<and> isAlive p \<and> (path p = [] \<or> last (path p) \<noteq> None)
                  then [None] else []))"
  using updatePlayer_noConsecGaps [of p pc now rnd ks] holeRun_path [of pc ins p]
  by (simp add: updatePlayer_path)

theorem updatePlayer_gap_collapsing_witness:
  "noConsecGaps (path holePlayer) \<and>
   noConsecGaps (path (updatePlayer demoControls 1000 1 Map.empty holePlayer)) \<and>
   isAlive holePlayer \<and>
   isMakingHole (updatePlayer demoControls 1000 1 Map.empty holePlayer) \<and>
   path (updatePlayer demoControls 1000 1 Map.empty holePlayer) = [Some (200, 200), None] \<and>
   holeRun demoControls holeInputs holePlayer \<and>
   path (updateMany demoControls holeInputs holePlayer) = [Some (200, 200), None]"
proof -
  have p0: "path holePlayer = [Some (200, 200)]" "isAlive holePlayer" "isMakingHole holePlayer"
    "holeTimer holePlayer = 5"
    by (simp_all add: holePlayer_def demoPlayer_def createPlayer_def)
  have hole: "isMakingHole (updatePlayer demoControls 1000 1 Map.empty holePlayer)"
    using hole_continues [of holePlayer] by (simp add: p0)
  have run: "holeRun demoControls holeInputs holePlayer"
    by (rule holeRun_timer) (simp_all add: p0 holeInputs_def)
  have ne: "holeInputs \<noteq> []" by (simp add: holeInputs_def)
  show ?thesis
    using updatePlayer_gap_collapsing [of holePlayer demoControls 1000 1 Map.empty holeInputs]
      hole run ne
    by (simp add: p0)
qed

section \<open>The trail check of checkCollisions\<close>

lemma pathLoop_iff:
  "pathLoop p q i es =
     (\<exists>j<length es. \<not> (pid p = pid q \<and> int (length (path q)) - skipSegments \<le> int (i + j)) \<and>
        (\<exists>pt. es ! j = Some pt \<and> headOverlaps p q pt))"
proof (induction es arbitrary: i)
  case Nil
  then show ?case by simp
next
  case (Cons e es)
  have split: "\<And>P. (\<exists>j<length (e # es). P j) = (P 0 \<or> (\<exists>j<length es. P (Suc j)))"
    by (auto simp: less_Suc_eq_0_disj)
  show ?case
    unfolding split
    by (cases e) (auto simp: Cons.IH headOverlaps_def Let_def)
qed

lemma trailLoop_iff: "trailLoop p qs = (\<exists>q\<in>set qs. pathLoop p q 0 (path q))"
  by (induction qs) auto

lemma trailLoop_tested:
  "trailLoop p qs =
     (\<exists>q\<in>set qs. \<exists>j. testedIndex p q j \<and> (\<exists>pt. path q ! j = Some pt \<and> headOverlaps p q pt))"
  unfolding trailLoop_iff pathLoop_iff testedIndex_def skipSegments_def
  by (rule bex_cong[OF refl]) auto

lemma trailLoop_short_own:
  "\<forall>q\<in>set qs. pid q = pid p \<and> length (path q) \<le> 20 \<Longrightarrow> \<not> trailLoop p qs"
  by (auto simp: trailLoop_tested testedIndex_def)

lemma updateMany_fields:
  "pid (updateMany pc ins p) = pid p"
  "isAlive (updateMany pc ins p) = isAlive p"
  "radius (updateMany pc ins p) = radius p"
  "speed (updateMany pc ins p) = speed p"
  by (induction ins arbitrary: p) (auto simp: updatePlayer_fields)

lemma updateMany_path_length:
  "length (path (updateMany pc ins p)) \<le> length (path p) + length ins"
proof (induction ins arbitrary: p)
  case Nil
  then show ?case by simp
next
  case (Cons a ins)
  obtain now rnd ks where a: "a = (now, rnd, ks)" by (cases a) auto
  have "length (path (updatePlayer pc now rnd ks p)) \<le> length (path p) + 1"
    by (simp add: updatePlayer_path)
  with Cons.IH [of "updatePlayer pc now rnd ks p"] a show ?case by simp
qed

lemma currentSpeed_bounds:
  "speed p = 2 \<Longrightarrow> 7 / 5 \<le> currentSpeed p \<and> currentSpeed p \<le> 3"
  by (simp add: currentSpeed_def SPEED_BOOST_MULTIPLIER_def SLOW_OTHERS_MULTIPLIER_def Let_def)

lemma move_bound:
  assumes "speed p = 2"
  shows "\<bar>px (move p) - px p\<bar> \<le> 3 \<and> \<bar>py (move p) - py p\<bar> \<le> 3"
proof -
  from currentSpeed_bounds [OF assms] have s: "0 \<le> currentSpeed p" "currentSpeed p \<le> 3" by simp_all
  have "\<bar>cos (angle p) * currentSpeed p\<bar> \<le> 1 * 3"
    unfolding abs_mult using s by (intro mult_mono) simp_all
  moreover have "\<bar>sin (angle p) * currentSpeed p\<bar> \<le> 1 * 3"
    unfolding abs_mult using s by (intro mult_mono) simp_all
  ultimately show ?thesis by (simp add: move_def)
qed

lemma updatePlayer_position_bound:
  assumes "speed p = 2"
  shows "\<bar>px (updatePlayer pc now rnd ks p) - px p\<bar> \<le> 3 \<and>
         \<bar>py (updatePlayer pc now rnd ks p) - py p\<bar> \<le> 3"
proof (cases "isAlive p")
  case False
  then show ?thesis by (simp add: updatePlayer_def)
next
  case True
  let ?q = "turn (resolveTurning pc ks (startHole rnd (holeTimerStep
              (p\<lparr>activeEffects := expireEffects now (activeEffects p)\<rparr>))))"
  have "speed ?q = 2" using assms by simp
  from move_bound [OF this] True show ?thesis by (simp add: updatePlayer_def)
qed

lemma updateMany_position_bound:
  "speed p = 2 \<Longrightarrow>
     \<bar>px (updateMany pc ins p) - px p\<bar> \<le> 3 * real (length ins) \<and>
     \<bar>py (updateMany pc ins p) - py p\<bar> \<le> 3 * real (length ins)"
proof (induction ins arbitrary: p)
  case Nil
  then show ?case by simp
next
  case (Cons a ins)
  obtain now rnd ks where a: "a = (now, rnd, ks)" by (cases a) auto
  let ?q = "updatePlayer pc now rnd ks p"
  have sq: "speed ?q = 2" using Cons.prems by (simp add: updatePlayer_fields)
  from Cons.IH [OF sq] updatePlayer_position_bound [OF Cons.prems, of pc now rnd ks] a
  show ?case by (simp add: algebra_simps) linarith
qed

text \<open>
  C7. When no immunity applies and the head is inside the playable area, \<open>checkCollisions\<close>
  reports a collision exactly when the head overlaps a recorded point (not a gap marker) at a
  tested index of some player's path: for a path of another player every index is tested, for
  the player's own path (same id) only the indices before the last 20 entries. Consequently
  a player whose own path has at most 20 entries reports no collision against it, and in
  particular a freshly created player reports none during its first 19 steps, whatever its
  motion (a straight line included).
\<close>

theorem checkCollisions_self_exclusion:
  "(\<not> isMakingHole player \<and> \<not> effectOn (activeEffects player) INVINCIBLE \<and>
    \<not> effectOn (activeEffects player) GHOST_MODE \<and> \<not> hitsBoundary player w h \<longrightarrow>
      checkCollisions player w h allPlayers =
        (\<exists>q\<in>set allPlayers. \<exists>j. testedIndex player q j \<and>
           (\<exists>pt. path q ! j = Some pt \<and> headOverlaps player q pt))) \<and>
   (testedIndex player q j =
      (j < length (path q) \<and> (pid player = pid q \<longrightarrow> j + 20 < length (path q)))) \<and>
   ((\<forall>q\<in>set allPlayers. pid q = pid player \<and> length (path q) \<le> 20) \<and>
    \<not> hitsBoundary player w h \<longrightarrow> \<not> checkCollisions player w h allPlayers) \<and>
   (length ins < 20 \<and> \<not> hitsBoundary (updateMany pc ins (createPlayer i nm sx sy a c sc)) w h \<longrightarrow>
      \<not> checkCollisions (updateMany pc ins (createPlayer i nm sx sy a c sc)) w h
           [updateMany pc ins (createPlayer i nm sx sy a c sc)])"
proof -
  let ?q = "updateMany pc ins (createPlayer i nm sx sy a c sc)"
  have len: "length ins < 20 \<Longrightarrow> length (path ?q) \<le> 20"
    using updateMany_path_length [of pc ins "createPlayer i nm sx sy a c sc"]
    by (simp add: createPlayer_def)
  have fresh: "length ins < 20 \<Longrightarrow> \<not> trailLoop ?q [?q]"
    using len by (intro trailLoop_short_own) simp
  have idx: "testedIndex player q j =
      (j < length (path q) \<and> (pid player = pid q \<longrightarrow> j + 20 < length (path q)))"
    by (auto simp: testedIndex_def)
  show ?thesis
    using fresh trailLoop_short_own [of allPlayers player] idx
    by (auto simp: checkCollisions_def trailLoop_tested)
qed

theorem checkCollisions_self_exclusion_witness:
  "\<not> isMakingHole coiledPlayer \<and> \<not> effectOn (activeEffects coiledPlayer) INVINCIBLE \<and>
   \<not> effectOn (activeEffects coiledPlayer) GHOST_MODE \<and> \<not> hitsBoundary coiledPlayer 800 600 \<and>
   checkCollisions coiledPlayer 800 600 [coiledPlayer] \<and>
   testedIndex coiledPlayer coiledPlayer 9 \<and> \<not> testedIndex coiledPlayer coiledPlayer 10 \<and>
   testedIndex coiledPlayer (coiledPlayer\<lparr>pid := 2\<rparr>) 29 \<and>
   pid demoPlayer = pid demoPlayer \<and> length (path demoPlayer) \<le> 20 \<and>
   \<not> hitsBoundary demoPlayer 800 600 \<and>
   \<not> checkCollisions demoPlayer 800 600 [demoPlayer] \<and>
   length holeInputs < 20 \<and>
   \<not> hitsBoundary (updateMany demoControls holeInputs demoPlayer) 800 600 \<and>
   \<not> checkCollisions (updateMany demoControls holeInputs demoPlayer) 800 600
        [updateMany demoControls holeInputs demoPlayer]"
proof -
  have c: "pid coiledPlayer = 1" "length (path coiledPlayer) = 30" "px coiledPlayer = 200"
    "py coiledPlayer = 200" "radius coiledPlayer = 5" "\<not> isMakingHole coiledPlayer"
    "activeEffects coiledPlayer = Map.empty" "path coiledPlayer ! 0 = Some (200, 200)"
    by (simp_all add: coiledPlayer_def demoPlayer_def createPlayer_def)
  have t0: "testedIndex coiledPlayer coiledPlayer 0"
    by (simp add: testedIndex_def c)
  have ov: "headOverlaps coiledPlayer coiledPlayer (200, 200)"
    by (simp add: headOverlaps_def c)
  have nb: "\<not> hitsBoundary coiledPlayer 800 600"
    by (simp add: hitsBoundary_def c)
  have hit: "\<exists>q\<in>set [coiledPlayer]. \<exists>j. testedIndex coiledPlayer q j \<and>
           (\<exists>pt. path q ! j = Some pt \<and> headOverlaps coiledPlayer q pt)"
    using t0 ov c(8) by auto
  have d: "pid demoPlayer = 1" "length (path demoPlayer) = 1" "\<not> hitsBoundary demoPlayer 800 600"
    "speed demoPlayer = 2" "px demoPlayer = 200" "py demoPlayer = 200" "radius demoPlayer = 5"
    by (simp_all add: demoPlayer_def createPlayer_def hitsBoundary_def)
  let ?q = "updateMany demoControls holeInputs demoPlayer"
  have len: "length holeInputs = 3"
    by (simp add: holeInputs_def)
  have r: "radius ?q = 5"
    by (simp add: updateMany_fields d)
  have inside: "\<not> hitsBoundary ?q 800 600"
  proof -
    from updateMany_position_bound [OF d(4), of demoControls holeInputs]
    have "\<bar>px ?q - 200\<bar> \<le> 9" "\<bar>py ?q - 200\<bar> \<le> 9"
      by (simp_all add: d len)
    then show ?thesis by (simp add: hitsBoundary_def r) linarith
  qed
  show ?thesis
    using checkCollisions_self_exclusion [of coiledPlayer 800 600 "[coiledPlayer]" coiledPlayer 9]
      checkCollisions_self_exclusion [of coiledPlayer 800 600 "[coiledPlayer]" coiledPlayer 10]
      checkCollisions_self_exclusion [of coiledPlayer 800 600 "[coiledPlayer]" "coiledPlayer\<lparr>pid := 2\<rparr>" 29]
      checkCollisions_self_exclusion [of demoPlayer 800 600 "[demoPlayer]"]
      checkCollisions_self_exclusion [where ins = holeInputs and pc = demoControls and i = 1
         and nm = "''Ace''" and sx = 200 and sy = 200 and a = 0 and c = "''red''" and sc = 0
         and w = 800 and h = 600]
      hit nb d(1-3) inside
    by (simp add: c effectOn_def len demoPlayer_def [symmetric])
qed

section \<open>Pause and resume\<close>

lemma paused_event_inert:
  assumes "gameState g = Paused" "\<not> spaceDown ev"
  shows "gameState (handleEvent env ev g) = Paused \<and>
         players (handleEvent env ev g) = players g \<and>
         activePowerups (handleEvent env ev g) = activePowerups g \<and>
         lastPowerupSpawnTime (handleEvent env ev g) = lastPowerupSpawnTime g \<and>
         pauseStartTime (handleEvent env ev g) = pauseStartTime g"
  using assms
  by (cases ev) (simp_all add: handleKeyDown_def handleKeyUp_def handleMouseClick_def gameLoop_def)

lemma paused_events_inert:
  "gameState g = Paused \<Longrightarrow> \<forall>(env, ev)\<in>set evs. \<not> spaceDown ev \<Longrightarrow>
     gameState (runEvents evs g) = Paused \<and>
     players (runEvents evs g) = players g \<and>
     activePowerups (runEvents evs g) = activePowerups g \<and>
     lastPowerupSpawnTime (runEvents evs g) = lastPowerupSpawnTime g \<and>
     pauseStartTime (runEvents evs g) = pauseStartTime g"
proof (induction evs arbitrary: g)
  case Nil
  then show ?case by simp
next
  case (Cons a evs)
  obtain env ev where a: "a = (env, ev)" by (cases a) auto
  with Cons.prems have ns: "\<not> spaceDown ev" and rest: "\<forall>(env, ev)\<in>set evs. \<not> spaceDown ev"
    by auto
  from paused_event_inert [OF Cons.prems(1) ns, of env]
  have st: "gameState (handleEvent env ev g) = Paused" and
    eq: "players (handleEvent env ev g) = players g"
        "activePowerups (handleEvent env ev g) = activePowerups g"
        "lastPowerupSpawnTime (handleEvent env ev g) = lastPowerupSpawnTime g"
        "pauseStartTime (handleEvent env ev g) = pauseStartTime g"
    by simp_all
  from Cons.IH [OF st rest] eq a show ?case by simp
qed

lemma pause_step:
  assumes "gameState g = Running" "isSpace key"
  shows "handleKeyDown env key g = g\<lparr>gameState := Paused, pauseStartTime := Some (clockKey env)\<rparr>"
  using assms by (simp add: handleKeyDown_def)

lemma resume_step:
  assumes "gameState g = Paused" "isSpace key" "pauseStartTime g = Some t"
  shows "handleKeyDown env key g = resumeTimers (clockKey env - t) (g\<lparr>gameState := Running\<rparr>)"
  using assms by (simp add: handleKeyDown_def)

text \<open>
  C5. Let a running game be paused by a space key-down handled when the clock reads
  \<open>t0\<close>, let any events other than a space key-down follow (frames, other keys, clicks),
  and let a space key-down handled at clock \<open>t1\<close> resume it. Then the game is running again
  and, with \<open>d = t1 - t0\<close>: every player is as before the pause except that each active
  effect expiry \<open>e\<close> is now \<open>e + d\<close>, so that its remaining time \<open>e + d - t1\<close> equals the
  remaining time \<open>e - t0\<close> at the pause; every active powerup is as before except that its
  \<open>createdAt\<close> is increased by \<open>d\<close>; and \<open>lastPowerupSpawnTime\<close> is increased by \<open>d\<close>.
\<close>

theorem pause_resume_shift:
  assumes run: "gameState g = Running"
    and keys: "isSpace key1" "isSpace key2"
    and quiet: "\<forall>(env, ev)\<in>set evs. \<not> spaceDown ev"
    and res: "resumed = handleKeyDown env2 key2 (runEvents evs (handleKeyDown env1 key1 g))"
    and dur: "d = clockKey env2 - clockKey env1"
  shows "gameState resumed = Running \<and> pauseStartTime resumed = None \<and>
         players resumed =
           map (\<lambda>p. p\<lparr>activeEffects := shiftEffects d (activeEffects p)\<rparr>) (players g) \<and>
         (\<forall>p\<in>set (players g). \<forall>k e. activeEffects p k = Some e \<and> effectOn (activeEffects p) k \<longrightarrow>
            shiftEffects d (activeEffects p) k = Some (e + d) \<and>
            (e + d) - clockKey env2 = e - clockKey env1) \<and>
         activePowerups resumed =
           map (\<lambda>powerup. powerup\<lparr>createdAt := createdAt powerup + d\<rparr>) (activePowerups g) \<and>
         lastPowerupSpawnTime resumed = lastPowerupSpawnTime g + d"
proof -
  let ?gp = "handleKeyDown env1 key1 g"
  have gp: "?gp = g\<lparr>gameState := Paused, pauseStartTime := Some (clockKey env1)\<rparr>"
    using run keys(1) by (rule pause_step)
  then have paused: "gameState ?gp = Paused" by simp
  from paused_events_inert [OF paused quiet] gp
  have mid: "gameState (runEvents evs ?gp) = Paused"
    "players (runEvents evs ?gp) = players g"
    "activePowerups (runEvents evs ?gp) = activePowerups g"
    "lastPowerupSpawnTime (runEvents evs ?gp) = lastPowerupSpawnTime g"
    "pauseStartTime (runEvents evs ?gp) = Some (clockKey env1)"
    by simp_all
  have "resumed = resumeTimers d ((runEvents evs ?gp)\<lparr>gameState := Running\<rparr>)"
    unfolding res dur using mid(1) keys(2) mid(5) by (rule resume_step)
  then show ?thesis
    using mid by (auto simp: resumeTimers_def shiftEffects_def effectOn_def dur)
qed

theorem pause_resume_shift_witness:
  "gameState boostedGame = Running \<and> isSpace '' '' \<and>
   \<not> spaceDown Frame \<and> \<not> spaceDown (KeyDown ''a'') \<and>
   gameState (handleKeyDown (envAt 14000) '' ''
      (runEvents [(envAt 5000, Frame), (envAt 6000, KeyDown ''a'')]
         (handleKeyDown (envAt 4000) '' '' boostedGame))) = Running \<and>
   map (\<lambda>p. activeEffects p SPEED_BOOST)
     (players (handleKeyDown (envAt 14000) '' ''
        (runEvents [(envAt 5000, Frame), (envAt 6000, KeyDown ''a'')]
           (handleKeyDown (envAt 4000) '' '' boostedGame)))) = [Some 19000, None] \<and>
   (19000 :: real) - clockKey (envAt 14000) = 9000 - clockKey (envAt 4000) \<and>
   map createdAt
     (activePowerups (handleKeyDown (envAt 14000) '' ''
        (runEvents [(envAt 5000, Frame), (envAt 6000, KeyDown ''a'')]
           (handleKeyDown (envAt 4000) '' '' boostedGame)))) = [13000] \<and>
   lastPowerupSpawnTime (handleKeyDown (envAt 14000) '' ''
      (runEvents [(envAt 5000, Frame), (envAt 6000, KeyDown ''a'')]
         (handleKeyDown (envAt 4000) '' '' boostedGame))) = 12500"
proof -
  have quiet: "\<forall>(env, ev)\<in>set [(envAt 5000, Frame), (envAt 6000, KeyDown ''a'')]. \<not> spaceDown ev"
    by (simp add: isSpace_def)
  have g: "gameState boostedGame = Running" "lastPowerupSpawnTime boostedGame = 2500"
    "activePowerups boostedGame = [demoPowerup]"
    "players boostedGame = [demoPlayer\<lparr>activeEffects := [SPEED_BOOST \<mapsto> 9000]\<rparr>, demoPlayer\<lparr>pid := 2\<rparr>]"
    by (simp_all add: boostedGame_def)
  have sp: "isSpace '' ''" by (simp add: isSpace_def)
  have d: "clockKey (envAt 14000) - clockKey (envAt 4000) = 10000"
    by (simp add: envAt_def)
  from pause_resume_shift [OF g(1) sp sp quiet refl, of "clockKey (envAt 14000) - clockKey (envAt 4000)"
      "envAt 14000" "envAt 4000"]
  show ?thesis
    unfolding d
    by (simp add: g sp isSpace_def shiftEffects_def truthy_def demoPowerup_def demoPlayer_def
        createPlayer_def envAt_def)
qed

section \<open>Round end: the session win condition\<close>

lemma sortDescending_props:
  "mset (sortDescending xs) = mset xs" "sorted_wrt (\<lambda>a b. b \<le> a) (sortDescending xs)"
  by (simp_all add: sortDescending_def sorted_wrt_rev)

lemma desc_head_Max:
  assumes "sorted_wrt (\<lambda>a b. b \<le> a) (h # t)"
  shows "Max (set (h # t)) = (h :: int)"
  using assms by (intro Max_eqI) auto

lemma sortDescending_cases:
  assumes ys: "sortDescending xs = h # t"
  shows "highestOf xs = h" "set (remove1 (Max (set xs)) xs) = set t"
proof -
  have m: "mset xs = mset (h # t)" using sortDescending_props(1) [of xs] ys by simp
  then have s: "set xs = set (h # t)" by (rule mset_eq_setD)
  have d: "sorted_wrt (\<lambda>a b. b \<le> a) (h # t)" using sortDescending_props(2) [of xs] ys by simp
  show h: "highestOf xs = h" unfolding highestOf_def s using d by (rule desc_head_Max)
  have "mset (remove1 h xs) = mset t" using m by simp
  then have "set (remove1 h xs) = set t" by (rule mset_eq_setD)
  with h show "set (remove1 (Max (set xs)) xs) = set t" by (simp add: highestOf_def)
qed

lemma sessionWon_spec:
  "sessionWon (sortDescending xs) =
     (xs \<noteq> [] \<and> 30 \<le> highestOf xs \<and> (length xs < 2 \<or> 2 \<le> highestOf xs - secondHighestOf xs))"
proof (cases "sortDescending xs")
  case Nil
  then have "xs = []" using sortDescending_props(1) [of xs] by simp
  then show ?thesis by (simp add: sessionWon_def sortDescending_def WIN_SCORE_def)
next
  case (Cons h t)
  have len: "length xs = Suc (length t)"
    using arg_cong [OF sortDescending_props(1) [of xs], of size] Cons by simp
  then have ne: "xs \<noteq> []" by auto
  note hs = sortDescending_cases [OF Cons]
  show ?thesis
  proof (cases t)
    case Nil
    with Cons len ne hs show ?thesis
      by (simp add: sessionWon_def WIN_SCORE_def)
  next
    case (Cons s rest)
    have d: "sorted_wrt (\<lambda>a b. b \<le> a) (h # s # rest)"
      using sortDescending_props(2) [of xs] \<open>sortDescending xs = h # t\<close> Cons by simp
    then have "sorted_wrt (\<lambda>a b. b \<le> a) (s # rest)" by simp
    then have "Max (set (s # rest)) = s" by (rule desc_head_Max)
    then have "secondHighestOf xs = s"
      unfolding secondHighestOf_def hs(2) Cons .
    with \<open>sortDescending xs = h # t\<close> Cons len ne hs(1) show ?thesis
      by (auto simp: sessionWon_def WIN_SCORE_def WIN_DIFFERENCE_def)
  qed
qed

lemma objSet_fresh: "k \<notin> fst ` set obj \<Longrightarrow> objSet k v obj = obj @ [(k, v)]"
  by (simp add: objSet_def)

lemma storeScores_foldl:
  "distinct (map pid ps) \<Longrightarrow> pid ` set ps \<inter> fst ` set acc = {} \<Longrightarrow>
     foldl (\<lambda>obj p. objSet (pid p) (score p) obj) acc ps = acc @ map (\<lambda>p. (pid p, score p)) ps"
proof (induction ps arbitrary: acc)
  case Nil
  then show ?case by simp
next
  case (Cons p ps)
  have fresh: "pid p \<notin> fst ` set acc" using Cons.prems(2) by auto
  have "pid ` set ps \<inter> fst ` set (acc @ [(pid p, score p)]) = {}"
    using Cons.prems by auto
  with Cons.IH [of "acc @ [(pid p, score p)]"] Cons.prems(1) fresh show ?case
    by (simp add: objSet_fresh)
qed

lemma storeScores_distinct:
  "distinct (map pid ps) \<Longrightarrow> storeScores ps = map (\<lambda>p. (pid p, score p)) ps"
  using storeScores_foldl [of ps "[]"] by (simp add: storeScores_def)

lemma objectValues_mset: "mset (objectValues obj) = image_mset snd (mset obj)"
  by (simp add: objectValues_def)

lemma sortDescending_cong: "mset xs = mset ys \<Longrightarrow> sortDescending xs = sortDescending ys"
  unfolding sortDescending_def
  by (metis properties_for_sort sorted_sort mset_sort)

lemma scores_of_players:
  assumes "distinct (map pid ps)"
  shows "sortDescending (objectValues (storeScores ps)) = sortDescending (map score ps)"
proof -
  have "mset (objectValues (storeScores ps)) = mset (map score ps)"
    by (simp add: objectValues_mset storeScores_distinct [OF assms] image_mset.compositionality comp_def)
  then show ?thesis by (rule sortDescending_cong)
qed

lemma findPlayer_Some:
  "findPlayer k ps = Some j \<Longrightarrow> j < length ps \<and> pid (ps ! j) = k"
  by (induction ps arbitrary: j) (auto split: if_splits)

lemma findPlayer_None: "findPlayer k ps = None \<Longrightarrow> k \<notin> pid ` set ps"
  by (induction ps) (auto split: if_splits)

lemma map_update_same:
  "j < length ps \<Longrightarrow> f q = f (ps ! j) \<Longrightarrow> map f (ps[j := q]) = map f ps"
  by (induction ps arbitrary: j) (auto simp: nth_Cons split: nat.splits)

lemma awardPoints_frame:
  "length (awardPoints idx ranking ps) = length ps \<and>
   map pid (awardPoints idx ranking ps) = map pid ps \<and>
   map isAlive (awardPoints idx ranking ps) = map isAlive ps \<and>
   map path (awardPoints idx ranking ps) = map path ps"
proof (induction ranking arbitrary: idx ps)
  case Nil
  then show ?case by simp
next
  case (Cons r ranking)
  show ?case
  proof (cases "findPlayer r ps")
    case None
    then show ?thesis using Cons.IH [of "Suc idx" ps] by simp
  next
    case (Some j)
    let ?ps = "ps[j := (ps ! j)\<lparr>score := score (ps ! j) + pointsFor idx\<rparr>]"
    from findPlayer_Some [OF Some] have j: "j < length ps" by simp
    have "map pid ?ps = map pid ps" "map isAlive ?ps = map isAlive ps" "map path ?ps = map path ps"
      using j by (simp_all add: map_update_same)
    with Cons.IH [of "Suc idx" ?ps] Some show ?thesis by simp
  qed
qed

text \<open>
  C1. The round-end block leaves the game in state \<open>SessionOver\<close> or \<open>GameOver\<close>, and
  in \<open>SessionOver\<close> exactly when the test of the source holds of the stored scores sorted in
  descending order. With distinct player ids (one stored score per player) that is: there is
  a score, the highest cumulative score is at least 30, and either fewer than two scores
  exist or the highest exceeds the second highest by at least 2. Otherwise the state is
  \<open>GameOver\<close>. In both cases \<open>lastScores\<close> holds every player's id with its cumulative
  score.
\<close>

theorem roundEnd_win_condition:
  "(gameState (roundEnd g) = SessionOver \<or> gameState (roundEnd g) = GameOver) \<and>
   lastScores (roundEnd g) = storeScores (players (roundEnd g)) \<and>
   (gameState (roundEnd g) = SessionOver) =
     sessionWon (sortDescending (objectValues (lastScores (roundEnd g)))) \<and>
   (distinct (map pid (players g)) \<longrightarrow>
      (gameState (roundEnd g) = SessionOver) =
        (map score (players (roundEnd g)) \<noteq> [] \<and>
         30 \<le> highestOf (map score (players (roundEnd g))) \<and>
         (length (map score (players (roundEnd g))) < 2 \<or>
          2 \<le> highestOf (map score (players (roundEnd g)))
                 - secondHighestOf (map score (players (roundEnd g))))) \<and>
      lastScores (roundEnd g) = map (\<lambda>p. (pid p, score p)) (players (roundEnd g)))"
proof -
  let ?ps = "awardPoints 0 (finalRanking (players g) (eliminationOrder g)) (players g)"
  have st: "gameState (roundEnd g) =
      (if sessionWon (sortDescending (objectValues (storeScores ?ps))) then SessionOver else GameOver)"
    "lastScores (roundEnd g) = storeScores ?ps" "players (roundEnd g) = ?ps"
    by (simp_all add: roundEnd_def Let_def)
  have d: "distinct (map pid (players g)) \<Longrightarrow> distinct (map pid ?ps)"
    using awardPoints_frame [of 0 "finalRanking (players g) (eliminationOrder g)" "players g"]
    by simp
  have win: "distinct (map pid (players g)) \<Longrightarrow>
      sessionWon (sortDescending (objectValues (storeScores ?ps))) =
        (map score ?ps \<noteq> [] \<and> 30 \<le> highestOf (map score ?ps) \<and>
         (length (map score ?ps) < 2 \<or>
          2 \<le> highestOf (map score ?ps) - secondHighestOf (map score ?ps)))"
    using scores_of_players [OF d] sessionWon_spec [of "map score ?ps"] by simp
  have stored: "distinct (map pid (players g)) \<Longrightarrow>
      storeScores ?ps = map (\<lambda>p. (pid p, score p)) ?ps"
    using storeScores_distinct [OF d] .
  show ?thesis
    unfolding st using win stored by simp
qed

lemma duel_players:
  "players (duel a b) = [demoPlayer\<lparr>score := a\<rparr>, demoPlayer\<lparr>pid := 2, isAlive := False, score := b\<rparr>]"
  "eliminationOrder (duel a b) = [2]"
  by (simp_all add: duel_def)

lemma duel_roundEnd:
  "players (roundEnd (duel a b)) =
     [demoPlayer\<lparr>score := a + 3\<rparr>, demoPlayer\<lparr>pid := 2, isAlive := False, score := b + 2\<rparr>]"
  by (simp add: roundEnd_def duel_players finalRanking_def demoPlayer_def createPlayer_def
      pointsFor_def pointsAwarded_def Let_def)

lemma solo_roundEnd:
  "players (roundEnd (solo a)) = [demoPlayer\<lparr>score := a + 3\<rparr>]"
  by (simp add: roundEnd_def solo_def initialGame_def finalRanking_def demoPlayer_def
      createPlayer_def pointsFor_def pointsAwarded_def Let_def)

theorem roundEnd_win_condition_witness:
  "distinct (map pid (players (duel 27 26))) \<and>
   map score (players (roundEnd (duel 27 26))) = [30, 28] \<and>
   gameState (roundEnd (duel 27 26)) = SessionOver \<and>
   map score (players (roundEnd (duel 27 27))) = [30, 29] \<and>
   gameState (roundEnd (duel 27 27)) = GameOver \<and>
   map score (players (roundEnd (duel 28 28))) = [31, 30] \<and>
   gameState (roundEnd (duel 28 28)) = GameOver \<and>
   map score (players (roundEnd (solo 27))) = [30] \<and>
   gameState (roundEnd (solo 27)) = SessionOver \<and>
   lastScores (roundEnd (duel 27 27)) = [(1, 30), (2, 29)]"
proof -
  have d: "\<And>a b. distinct (map pid (players (duel a b)))" "\<And>a. distinct (map pid (players (solo a)))"
    by (simp_all add: duel_players solo_def initialGame_def demoPlayer_def createPlayer_def)
  have ids: "pid demoPlayer = 1"
    by (simp add: demoPlayer_def createPlayer_def)
  show ?thesis
    using roundEnd_win_condition [of "duel 27 26"] roundEnd_win_condition [of "duel 27 27"]
      roundEnd_win_condition [of "duel 28 28"] roundEnd_win_condition [of "solo 27"] d
    by (auto simp: duel_roundEnd solo_roundEnd highestOf_def secondHighestOf_def ids)
qed

end
